theory Spec2Isabelle
  imports Complex_Main
begin

section \<open>goog.fx.DragScrollSupport\<close>

text \<open>
  JavaScript numbers are modelled as reals: pixel coordinates, bounds and margins are
  compared, added and scaled exactly, and there is no NaN. A number is truthy when it
  is not zero.
\<close>

record Coordinate =
  coord_x :: real
  coord_y :: real

record Rect =
  rect_left :: real
  rect_top :: real
  rect_width :: real
  rect_height :: real

record Size =
  size_width :: real
  size_height :: real

text \<open>
  The container element as the class reads it: its tag name, the rectangle that
  \<^verbatim>\<open>goog.style.getBounds\<close> measures for it, and its two scroll offsets.
\<close>

record Element =
  tagName :: string
  measuredBounds :: Rect
  scrollTop :: real
  scrollLeft :: real

record MouseEvent =
  clientX :: real
  clientY :: real

text \<open>
  Modelled from the spec: \<^verbatim>\<open>goog.Timer\<close> is not part of the sources; the spec
  describes it as a repeating timer that is either running or stopped. \<^verbatim>\<open>start\<close>
  makes it running, \<^verbatim>\<open>stop\<close> makes it stopped, and a new timer is stopped.
\<close>

record Timer =
  timer_interval :: nat
  timer_enabled :: bool

definition Timer_new :: "nat \<Rightarrow> Timer" where
  "Timer_new interval = \<lparr>timer_interval = interval, timer_enabled = False\<rparr>"

definition Timer_start :: "Timer \<Rightarrow> Timer" where
  "Timer_start t = t\<lparr>timer_enabled := True\<rparr>"

definition Timer_stop :: "Timer \<Rightarrow> Timer" where
  "Timer_stop t = t\<lparr>timer_enabled := False\<rparr>"

record DragScrollSupport =
  constrainScroll :: bool
  horizontalScrolling :: bool
  containerNode :: Element
  scrollTimer :: Timer
  mouseMoveListener :: bool
  scrollDelta :: Coordinate
  containerIsActuallyContent :: bool
  containerBounds :: Rect
  margin :: real
  scrollBounds :: Rect

definition TIMER_STEP :: nat where
  "TIMER_STEP = 50"

definition SCROLL_STEP :: real where
  "SCROLL_STEP = 8"

definition ORIGIN_COORDINATE :: Coordinate where
  "ORIGIN_COORDINATE = \<lparr>coord_x = 0, coord_y = 0\<rparr>"

definition MARGIN :: real where
  "MARGIN = 32"

text \<open>\<^verbatim>\<open>constrainBounds_\<close>, with the margin it reads from the object as an argument.\<close>

definition constrainBounds :: "real \<Rightarrow> Rect \<Rightarrow> Rect" where
  "constrainBounds m bounds =
     (if m \<noteq> 0 then
        (let quarterHeight = rect_height bounds * 0.25;
             yMargin = min m quarterHeight;
             b1 = bounds\<lparr>rect_top := rect_top bounds + yMargin\<rparr>;
             b2 = b1\<lparr>rect_height := rect_height b1 - 2 * yMargin\<rparr>;
             quarterWidth = rect_width b2 * 0.25;
             xMargin = min m quarterWidth;
             b3 = b2\<lparr>rect_left := rect_left b2 + xMargin\<rparr>
         in b3\<lparr>rect_width := rect_width b3 - 2 * xMargin\<rparr>)
      else bounds)"

text \<open>
  The constructor. The viewport size is what \<^verbatim>\<open>goog.dom.getViewportSize()\<close> returns;
  an argument that is left out is \<open>None\<close>.
\<close>

definition DragScrollSupport_new ::
    "Size \<Rightarrow> Element \<Rightarrow> real option \<Rightarrow> bool option \<Rightarrow> DragScrollSupport" where
  "DragScrollSupport_new viewport node opt_margin opt_externalMouseMoveTracking =
     (let isContent = (tagName node = ''BODY'' \<or> tagName node = ''HTML'');
          bounds0 = measuredBounds node;
          bounds = (if isContent
                    then bounds0\<lparr>rect_height := size_height viewport,
                                 rect_width := size_width viewport\<rparr>
                    else bounds0);
          m = (case opt_margin of None \<Rightarrow> 0 | Some v \<Rightarrow> (if v \<noteq> 0 then v else 0))
      in \<lparr>constrainScroll = False,
          horizontalScrolling = True,
          containerNode = node,
          scrollTimer = Timer_new TIMER_STEP,
          mouseMoveListener =
            (case opt_externalMouseMoveTracking of None \<Rightarrow> True | Some ext \<Rightarrow> \<not> ext),
          scrollDelta = \<lparr>coord_x = 0, coord_y = 0\<rparr>,
          containerIsActuallyContent = isContent,
          containerBounds = bounds,
          margin = m,
          scrollBounds =
            (case opt_margin of
               None \<Rightarrow> bounds
             | Some v \<Rightarrow> (if v \<noteq> 0 then constrainBounds m bounds else bounds))\<rparr>)"

definition setConstrainScroll :: "bool \<Rightarrow> DragScrollSupport \<Rightarrow> DragScrollSupport" where
  "setConstrainScroll constrain d = d\<lparr>constrainScroll := (margin d \<noteq> 0 \<and> constrain)\<rparr>"

definition setHorizontalScrolling :: "bool \<Rightarrow> DragScrollSupport \<Rightarrow> DragScrollSupport" where
  "setHorizontalScrolling scrolling d = d\<lparr>horizontalScrolling := scrolling\<rparr>"

definition onTick :: "DragScrollSupport \<Rightarrow> DragScrollSupport" where
  "onTick d =
     (let n1 = (containerNode d)\<lparr>scrollTop :=
                 scrollTop (containerNode d) + coord_y (scrollDelta d)\<rparr>;
          n2 = n1\<lparr>scrollLeft := scrollLeft n1 + coord_x (scrollDelta d)\<rparr>
      in d\<lparr>containerNode := n2\<rparr>)"

definition calculateScrollDelta :: "real \<Rightarrow> real \<Rightarrow> real \<Rightarrow> real" where
  "calculateScrollDelta coordinate mn rangeLength =
     (if coordinate < mn then - SCROLL_STEP
      else if coordinate > mn + rangeLength then SCROLL_STEP
      else 0)"

definition isInContainerBounds :: "DragScrollSupport \<Rightarrow> real \<Rightarrow> real \<Rightarrow> bool" where
  "isInContainerBounds d px py =
     (let cb = containerBounds d
      in rect_left cb \<le> px \<and> rect_left cb + rect_width cb \<ge> px \<and>
         rect_top cb \<le> py \<and> rect_top cb + rect_height cb \<ge> py)"

text \<open>
  \<^verbatim>\<open>onMouseMove\<close>. The first argument is the document scroll offset that the host
  reports (\<^verbatim>\<open>getDocumentScroll()\<close>); it is used only for an ordinary container.
\<close>

definition eventOffset :: "Coordinate \<Rightarrow> DragScrollSupport \<Rightarrow> Coordinate" where
  "eventOffset documentScroll d =
     (if containerIsActuallyContent d then ORIGIN_COORDINATE else documentScroll)"

definition onMouseMove :: "Coordinate \<Rightarrow> MouseEvent \<Rightarrow> DragScrollSupport \<Rightarrow> DragScrollSupport" where
  "onMouseMove documentScroll event d =
     (let off = eventOffset documentScroll d;
          deltaX = (if horizontalScrolling d
                    then calculateScrollDelta (clientX event + coord_x off)
                           (rect_left (scrollBounds d)) (rect_width (scrollBounds d))
                    else 0);
          deltaY = calculateScrollDelta (clientY event + coord_y off)
                     (rect_top (scrollBounds d)) (rect_height (scrollBounds d));
          d1 = d\<lparr>scrollDelta := \<lparr>coord_x = deltaX, coord_y = deltaY\<rparr>\<rparr>
      in if (deltaX = 0 \<and> deltaY = 0) \<or>
            (constrainScroll d1 \<and>
             \<not> isInContainerBounds d1 (clientX event + coord_x off) (clientY event + coord_y off))
         then d1\<lparr>scrollTimer := Timer_stop (scrollTimer d1)\<rparr>
         else if \<not> timer_enabled (scrollTimer d1)
         then d1\<lparr>scrollTimer := Timer_start (scrollTimer d1)\<rparr>
         else d1)"

text \<open>Concrete inputs: a 100 by 100 container at the origin of a scrolled document.\<close>

definition box100 :: Element where
  "box100 = \<lparr>tagName = ''DIV'',
             measuredBounds = \<lparr>rect_left = 0, rect_top = 0, rect_width = 100, rect_height = 100\<rparr>,
             scrollTop = 0, scrollLeft = 0\<rparr>"

definition viewport0 :: Size where
  "viewport0 = \<lparr>size_width = 800, size_height = 600\<rparr>"

definition dragBox :: DragScrollSupport where
  "dragBox = DragScrollSupport_new viewport0 box100 (Some 10) None"

definition plainBox :: DragScrollSupport where
  "plainBox = DragScrollSupport_new viewport0 box100 None None"

section \<open>goog.history.Html5History\<close>

datatype error = AssertionError | TypeError

text \<open>Running a second operation on the result of a first one; a failure ends the run.\<close>

definition andThen :: "error + 'a \<Rightarrow> ('a \<Rightarrow> error + 'b) \<Rightarrow> error + 'b" where
  "andThen r f = (case r of Inl e \<Rightarrow> Inl e | Inr v \<Rightarrow> f v)"

subsection \<open>The host window\<close>

text \<open>
  The window is the browser's object, not code of the library. The model keeps what the
  class reads and calls: the location, the document title (which can be null), and
  the history object, which an old host lacks (\<open>None\<close>) or has without
  \<^verbatim>\<open>pushState\<close>. Every \<^verbatim>\<open>pushState\<close> and \<^verbatim>\<open>replaceState\<close> call is recorded with
  its title and URL (the state argument is always null). How the host turns the URL of
  such a call into its new location is a parameter, \<open>resolveUrl\<close>.
\<close>

datatype EventType = POPSTATE | HASHCHANGE

record Location =
  href :: string
  pathname :: string
  search :: string

datatype HistoryCall = PushState string string | ReplaceState string string

record History =
  pushStateSupported :: bool
  calls :: "HistoryCall list"

record Window =
  history :: "History option"
  location :: Location
  documentTitle :: "string option"
  resolveUrl :: "string \<Rightarrow> Location \<Rightarrow> Location"

definition pushState :: "string \<Rightarrow> string \<Rightarrow> Window \<Rightarrow> error + Window" where
  "pushState title url win =
     (case history win of
        None \<Rightarrow> Inl TypeError
      | Some hs \<Rightarrow>
          if pushStateSupported hs
          then Inr (win\<lparr>history := Some (hs\<lparr>calls := calls hs @ [PushState title url]\<rparr>),
                        location := resolveUrl win url (location win)\<rparr>)
          else Inl TypeError)"

definition replaceState :: "string \<Rightarrow> string \<Rightarrow> Window \<Rightarrow> error + Window" where
  "replaceState title url win =
     (case history win of
        None \<Rightarrow> Inl TypeError
      | Some hs \<Rightarrow>
          Inr (win\<lparr>history := Some (hs\<lparr>calls := calls hs @ [ReplaceState title url]\<rparr>),
                   location := resolveUrl win url (location win)\<rparr>))"

subsection \<open>JavaScript string operations\<close>

fun indexOfFrom :: "string \<Rightarrow> char \<Rightarrow> int \<Rightarrow> int" where
  "indexOfFrom [] c i = - 1"
| "indexOfFrom (d # ds) c i = (if d = c then i else indexOfFrom ds c (i + 1))"

definition indexOf :: "string \<Rightarrow> char \<Rightarrow> int" where
  "indexOf s c = indexOfFrom s c 0"

text \<open>\<^verbatim>\<open>s.substring(start)\<close>: a negative start counts as 0, one past the end as the end.\<close>

definition substring :: "string \<Rightarrow> int \<Rightarrow> string" where
  "substring s start = drop (nat (max 0 start)) s"

text \<open>\<^verbatim>\<open>s.slice(start)\<close>: a negative start counts from the end.\<close>

definition slice :: "string \<Rightarrow> int \<Rightarrow> string" where
  "slice s start =
     (if start < 0 then drop (nat (max 0 (int (length s) + start))) s
      else drop (nat start) s)"

text \<open>
  \<^verbatim>\<open>a || b || ''\<close> on strings that can be null or left out: the first one that is
  neither missing nor empty, else the empty string.
\<close>

definition firstNonEmpty :: "string option \<Rightarrow> string option \<Rightarrow> string" where
  "firstNonEmpty a b =
     (case a of
        Some s \<Rightarrow> (if s \<noteq> [] then s
                   else (case b of Some t \<Rightarrow> t | None \<Rightarrow> []))
      | None \<Rightarrow> (case b of Some t \<Rightarrow> t | None \<Rightarrow> []))"

subsection \<open>The channel\<close>

text \<open>\<^verbatim>\<open>goog.history.Event(token, isNavigation)\<close>.\<close>

record HistoryEvent =
  ev_token :: string
  isNavigation :: bool

record TokenTransformer =
  retrieveToken :: "string \<Rightarrow> Location \<Rightarrow> string"
  createUrl :: "string \<Rightarrow> string \<Rightarrow> Location \<Rightarrow> string"

text \<open>
  The object's fields, the event types of the window on which \<^verbatim>\<open>onHistoryEvent_\<close> is
  registered, and the events dispatched so far, oldest first.
\<close>

record Html5History =
  window :: Window
  transformer :: "TokenTransformer option"
  lastFragment :: "string option"
  listening :: "EventType set"
  enabled :: bool
  useFragment :: bool
  pathPrefix :: string
  dispatched :: "HistoryEvent list"

text \<open>
  Modelled from the spec: \<^verbatim>\<open>goog.asserts\<close> and \<^verbatim>\<open>goog.events.EventTarget\<close> are not
  part of the sources. A failed assertion is a precondition violation that ends the
  call; \<^verbatim>\<open>assertString\<close> returns its argument when it is a string. \<^verbatim>\<open>dispatchEvent\<close>
  notifies the listeners synchronously, which the model records by appending the event.
\<close>

definition assertString :: "string option \<Rightarrow> error + string" where
  "assertString v = (case v of None \<Rightarrow> Inl AssertionError | Some s \<Rightarrow> Inr s)"

definition dispatchEvent :: "HistoryEvent \<Rightarrow> Html5History \<Rightarrow> Html5History" where
  "dispatchEvent ev h = h\<lparr>dispatched := dispatched h @ [ev]\<rparr>"

text \<open>\<^verbatim>\<open>isSupported(opt_win)\<close>; the first argument is the global \<^verbatim>\<open>window\<close>.\<close>

definition isSupported :: "Window \<Rightarrow> Window option \<Rightarrow> bool" where
  "isSupported globalWindow opt_win =
     (let win = (case opt_win of Some w \<Rightarrow> w | None \<Rightarrow> globalWindow)
      in case history win of None \<Rightarrow> False | Some hs \<Rightarrow> pushStateSupported hs)"

definition Html5History_new ::
    "Window \<Rightarrow> Window option \<Rightarrow> TokenTransformer option \<Rightarrow> error + Html5History" where
  "Html5History_new globalWindow opt_win opt_transformer =
     (if \<not> isSupported globalWindow opt_win then Inl AssertionError
      else Inr \<lparr>window = (case opt_win of Some w \<Rightarrow> w | None \<Rightarrow> globalWindow),
                transformer = opt_transformer,
                lastFragment = None,
                listening = insert HASHCHANGE (insert POPSTATE {}),
                enabled = False,
                useFragment = True,
                pathPrefix = ''/'',
                dispatched = []\<rparr>)"

definition getFragment :: "Html5History \<Rightarrow> string option" where
  "getFragment h =
     (if useFragment h then
        (let loc = href (location (window h));
             index = indexOf loc CHR ''#''
         in Some (if index < 0 then [] else substring loc (index + 1)))
      else None)"

definition getToken :: "Html5History \<Rightarrow> error + string" where
  "getToken h =
     (if useFragment h then assertString (getFragment h)
      else Inr (case transformer h of
                  Some tr \<Rightarrow> retrieveToken tr (pathPrefix h) (location (window h))
                | None \<Rightarrow> slice (pathname (location (window h))) (int (length (pathPrefix h)))))"

definition setEnabled :: "bool \<Rightarrow> Html5History \<Rightarrow> error + Html5History" where
  "setEnabled enable h =
     (if enable = enabled h then Inr h
      else (let h1 = h\<lparr>enabled := enable\<rparr>
            in if enable
               then andThen (getToken h1)
                      (\<lambda>t. Inr (dispatchEvent \<lparr>ev_token = t, isNavigation = False\<rparr> h1))
               else Inr h1))"

definition getUrl :: "Html5History \<Rightarrow> string \<Rightarrow> string" where
  "getUrl h token =
     (if useFragment h then CHR ''#'' # token
      else (case transformer h of
              Some tr \<Rightarrow> createUrl tr token (pathPrefix h) (location (window h))
            | None \<Rightarrow> pathPrefix h @ token @ search (location (window h))))"

definition setToken :: "string \<Rightarrow> string option \<Rightarrow> Html5History \<Rightarrow> error + Html5History" where
  "setToken token opt_title h =
     andThen (getToken h) (\<lambda>current.
       if token = current then Inr h
       else andThen
              (pushState (firstNonEmpty opt_title (documentTitle (window h)))
                 (getUrl h token) (window h))
              (\<lambda>w. Inr (dispatchEvent \<lparr>ev_token = token, isNavigation = False\<rparr>
                          (h\<lparr>window := w\<rparr>))))"

definition replaceToken :: "string \<Rightarrow> string option \<Rightarrow> Html5History \<Rightarrow> error + Html5History" where
  "replaceToken token opt_title h =
     andThen
       (replaceState (firstNonEmpty opt_title (documentTitle (window h)))
          (getUrl h token) (window h))
       (\<lambda>w. Inr (dispatchEvent \<lparr>ev_token = token, isNavigation = False\<rparr>
                   (h\<lparr>window := w\<rparr>)))"

definition setUseFragment :: "bool \<Rightarrow> Html5History \<Rightarrow> Html5History" where
  "setUseFragment use h =
     (if useFragment h \<noteq> use
      then (if use then h\<lparr>listening := insert HASHCHANGE (listening h), useFragment := use\<rparr>
            else h\<lparr>listening := listening h - {HASHCHANGE}, useFragment := use\<rparr>)
      else h)"

definition setPathPrefix :: "string \<Rightarrow> Html5History \<Rightarrow> Html5History" where
  "setPathPrefix prefix h = h\<lparr>pathPrefix := prefix\<rparr>"

text \<open>\<^verbatim>\<open>onHistoryEvent_(e)\<close>; the argument is \<^verbatim>\<open>e.type\<close>.\<close>

definition onHistoryEvent :: "EventType \<Rightarrow> Html5History \<Rightarrow> error + Html5History" where
  "onHistoryEvent e h =
     (if enabled h then
        (let fragment = getFragment h
         in if e = POPSTATE \<or> fragment \<noteq> lastFragment h
            then (let h1 = h\<lparr>lastFragment := fragment\<rparr>
                  in andThen (getToken h1)
                       (\<lambda>t. Inr (dispatchEvent \<lparr>ev_token = t, isNavigation = True\<rparr> h1)))
            else Inr h)
      else Inr h)"

subsection \<open>Observations and concrete inputs\<close>

definition historyCalls :: "Html5History \<Rightarrow> HistoryCall list" where
  "historyCalls h = (case history (window h) of None \<Rightarrow> [] | Some hs \<Rightarrow> calls hs)"

fun isPush :: "HistoryCall \<Rightarrow> bool" where
  "isPush (PushState title url) = True"
| "isPush (ReplaceState title url) = False"

definition pushCount :: "Html5History \<Rightarrow> nat" where
  "pushCount h = length (filter isPush (historyCalls h))"

text \<open>
  An example host for fragment URLs: the part of \<^verbatim>\<open>href\<close> from the first \<^verbatim>\<open>#\<close> on is
  replaced by the URL of the call.
\<close>

definition fragmentHost :: "string \<Rightarrow> Location \<Rightarrow> Location" where
  "fragmentHost url loc = loc\<lparr>href := takeWhile (\<lambda>c. c \<noteq> CHR ''#'') (href loc) @ url\<rparr>"

definition window0 :: Window where
  "window0 = \<lparr>history = Some \<lparr>pushStateSupported = True, calls = []\<rparr>,
              location = \<lparr>href = ''http://h/p#a'', pathname = ''/p'', search = []\<rparr>,
              documentTitle = Some ''T'',
              resolveUrl = fragmentHost\<rparr>"

definition oldWindow :: Window where
  "oldWindow = window0\<lparr>history := None\<rparr>"

definition channel0 :: Html5History where
  "channel0 = \<lparr>window = window0, transformer = None, lastFragment = None,
               listening = insert HASHCHANGE (insert POPSTATE {}),
               enabled = False, useFragment = True, pathPrefix = ''/'', dispatched = []\<rparr>"

definition channelB :: Html5History where
  "channelB =
     channel0\<lparr>window := window0\<lparr>history :=
                   Some \<lparr>pushStateSupported = True, calls = [PushState ''T'' ''#b'']\<rparr>,
                 location := \<lparr>href = ''http://h/p#b'', pathname = ''/p'', search = []\<rparr>\<rparr>,
               dispatched := [\<lparr>ev_token = ''b'', isNavigation = False\<rparr>]\<rparr>"

section \<open>Properties of DragScrollSupport\<close>

text \<open>
  C1. For every coordinate, zone minimum and zone length, \<open>calculateScrollDelta\<close> returns
  -8 when the coordinate is below the minimum, +8 when it is above minimum plus length,
  and 0 otherwise; the step constant is 8.
\<close>

theorem calculateScrollDelta_cases:
  "SCROLL_STEP = 8 \<and>
   calculateScrollDelta coordinate zoneMin zoneLength =
     (if coordinate < zoneMin then - 8
      else if coordinate > zoneMin + zoneLength then 8
      else 0)"
  by (simp add: calculateScrollDelta_def SCROLL_STEP_def)

text \<open>
  C2. After every call of \<open>onMouseMove\<close> the stored delta is the one computed from the
  sample, and the timer is running exactly when that delta is nonzero in some axis and
  it is not the case that constrained scrolling is on with the sample outside the
  container bounds. In particular, after \<open>setConstrainScroll True\<close> on a controller
  with a nonzero margin, a sample outside the container bounds leaves the timer
  stopped, whatever the delta.
\<close>

theorem onMouseMove_timer:
  "scrollDelta (onMouseMove ds ev d) =
     \<lparr>coord_x =
        (if horizontalScrolling d
         then calculateScrollDelta (clientX ev + coord_x (eventOffset ds d))
                (rect_left (scrollBounds d)) (rect_width (scrollBounds d))
         else 0),
      coord_y =
        calculateScrollDelta (clientY ev + coord_y (eventOffset ds d))
          (rect_top (scrollBounds d)) (rect_height (scrollBounds d))\<rparr> \<and>
   (timer_enabled (scrollTimer (onMouseMove ds ev d)) \<longleftrightarrow>
      (coord_x (scrollDelta (onMouseMove ds ev d)) \<noteq> 0 \<or>
       coord_y (scrollDelta (onMouseMove ds ev d)) \<noteq> 0) \<and>
      \<not> (constrainScroll d \<and>
         \<not> isInContainerBounds d (clientX ev + coord_x (eventOffset ds d))
                                  (clientY ev + coord_y (eventOffset ds d)))) \<and>
   (margin d \<noteq> 0 \<and>
    \<not> isInContainerBounds d (clientX ev + coord_x (eventOffset ds d))
                             (clientY ev + coord_y (eventOffset ds d)) \<longrightarrow>
    constrainScroll (setConstrainScroll True d) \<and>
    \<not> timer_enabled (scrollTimer (onMouseMove ds ev (setConstrainScroll True d))))"
  by (simp add: onMouseMove_def Let_def Timer_stop_def Timer_start_def
      isInContainerBounds_def eventOffset_def setConstrainScroll_def)

text \<open>
  The instance: a 100 by 100 container with margin 10 and a sample at (-5, 50), left of
  the container. The raw delta is -8 in x; with constrained scrolling the timer is
  stopped, without it the timer runs.
\<close>

theorem onMouseMove_timer_witness:
  "margin dragBox \<noteq> 0 \<and>
   \<not> isInContainerBounds dragBox
       (clientX \<lparr>clientX = - 5, clientY = 50\<rparr> + coord_x (eventOffset ORIGIN_COORDINATE dragBox))
       (clientY \<lparr>clientX = - 5, clientY = 50\<rparr> + coord_y (eventOffset ORIGIN_COORDINATE dragBox)) \<and>
   coord_x (scrollDelta (onMouseMove ORIGIN_COORDINATE \<lparr>clientX = - 5, clientY = 50\<rparr>
       (setConstrainScroll True dragBox))) = - 8 \<and>
   \<not> timer_enabled (scrollTimer (onMouseMove ORIGIN_COORDINATE \<lparr>clientX = - 5, clientY = 50\<rparr>
       (setConstrainScroll True dragBox))) \<and>
   timer_enabled (scrollTimer (onMouseMove ORIGIN_COORDINATE \<lparr>clientX = - 5, clientY = 50\<rparr>
       dragBox))"
  using onMouseMove_timer [of ORIGIN_COORDINATE "\<lparr>clientX = - 5, clientY = 50\<rparr>" dragBox]
  by (simp add: dragBox_def DragScrollSupport_new_def box100_def viewport0_def Let_def
      constrainBounds_def onMouseMove_def Timer_new_def Timer_stop_def Timer_start_def
      isInContainerBounds_def eventOffset_def setConstrainScroll_def ORIGIN_COORDINATE_def
      calculateScrollDelta_def SCROLL_STEP_def TIMER_STEP_def)

text \<open>
  C3. For every container bounds rectangle and every margin above 0, the trigger zone
  is the container bounds inset on each side by the smaller of the margin and a quarter
  of that dimension; a width or height that is not negative stays so. A 100 by 100
  container with margin 60 is inset by 25 on each side, not by 60.
\<close>

theorem constrainBounds_inset:
  "0 < m \<Longrightarrow>
   constrainBounds m b =
     \<lparr>rect_left = rect_left b + min m (rect_width b * 0.25),
      rect_top = rect_top b + min m (rect_height b * 0.25),
      rect_width = rect_width b - 2 * min m (rect_width b * 0.25),
      rect_height = rect_height b - 2 * min m (rect_height b * 0.25)\<rparr> \<and>
   scrollBounds (DragScrollSupport_new vp node (Some m) ext) =
     constrainBounds m (containerBounds (DragScrollSupport_new vp node (Some m) ext)) \<and>
   (0 \<le> rect_width b \<longrightarrow> 0 \<le> rect_width (constrainBounds m b)) \<and>
   (0 \<le> rect_height b \<longrightarrow> 0 \<le> rect_height (constrainBounds m b)) \<and>
   scrollBounds (DragScrollSupport_new viewport0 box100 (Some 60) None) =
     \<lparr>rect_left = 25, rect_top = 25, rect_width = 50, rect_height = 50\<rparr>"
  by (auto simp: constrainBounds_def Let_def DragScrollSupport_new_def min_def
      box100_def viewport0_def)

theorem constrainBounds_inset_witness:
  "(0::real) < 60 \<and> 0 \<le> rect_width (measuredBounds box100) \<and>
   0 \<le> rect_height (measuredBounds box100) \<and>
   constrainBounds 60 (measuredBounds box100) =
     \<lparr>rect_left = 25, rect_top = 25, rect_width = 50, rect_height = 50\<rparr> \<and>
   0 \<le> rect_width (constrainBounds 60 (measuredBounds box100)) \<and>
   0 \<le> rect_height (constrainBounds 60 (measuredBounds box100))"
  using constrainBounds_inset [of 60 "measuredBounds box100" viewport0 box100 None]
  by (simp add: box100_def)

text \<open>
  C4, as the code has it. For a controller whose margin is 0 (constructed with margin
  0 or without one), \<open>setConstrainScroll\<close> with any argument leaves the constrained
  scroll state false and changes nothing else, so the argument is not kept anywhere;
  for a margin that is not 0, in particular above 0, the state becomes the argument.
\<close>

theorem setConstrainScroll_state:
  "(margin d = 0 \<longrightarrow> setConstrainScroll constrain d = d\<lparr>constrainScroll := False\<rparr>) \<and>
   (margin d \<noteq> 0 \<longrightarrow> setConstrainScroll constrain d = d\<lparr>constrainScroll := constrain\<rparr>) \<and>
   margin (DragScrollSupport_new vp node None ext) = 0 \<and>
   margin (DragScrollSupport_new vp node (Some 0) ext) = 0 \<and>
   (0 < m \<longrightarrow> margin (DragScrollSupport_new vp node (Some m) ext) = m)"
  by (simp add: setConstrainScroll_def DragScrollSupport_new_def Let_def)

theorem setConstrainScroll_state_witness:
  "margin plainBox = 0 \<and>
   constrainScroll (setConstrainScroll True plainBox) = False \<and>
   (0::real) < 10 \<and> margin dragBox \<noteq> 0 \<and>
   constrainScroll (setConstrainScroll True dragBox) = True"
  using setConstrainScroll_state [of plainBox True viewport0 box100 None 10]
    setConstrainScroll_state [of dragBox True viewport0 box100 None 10]
  by (simp add: dragBox_def plainBox_def)

text \<open>
  The claim as written also says that with margin 0 the setter still records the
  caller's intent. On a controller constructed without a margin the calls with
  \<open>True\<close> and with \<open>False\<close> end in the same state, so no intent is recorded.
\<close>

theorem setConstrainScroll_intent_counterexample:
  "constrainScroll (setConstrainScroll True plainBox) = False \<and>
   setConstrainScroll True plainBox = setConstrainScroll False plainBox"
  by (simp add: setConstrainScroll_def plainBox_def DragScrollSupport_new_def Let_def)

section \<open>Properties of Html5History\<close>

subsection \<open>Reading the token\<close>

lemma indexOfFrom_absent: "c \<notin> set s \<Longrightarrow> indexOfFrom s c i = - 1"
  by (induction s arbitrary: i) auto

lemma indexOfFrom_first:
  "c \<notin> set pre \<Longrightarrow> indexOfFrom (pre @ c # post) c i = i + int (length pre)"
  by (induction pre arbitrary: i) auto

lemma substring_after_prefix:
  "substring (pre @ c # post) (int (length pre) + 1) = post"
proof -
  have "nat (max 0 (int (length pre) + 1)) = Suc (length pre)"
    by simp
  then show ?thesis
    by (simp add: substring_def)
qed

lemma getToken_total: "\<exists>t. getToken h = Inr t"
  by (simp add: getToken_def getFragment_def assertString_def Let_def)

lemma getToken_Inr_cases: "(getToken h \<noteq> Inr t) = (\<exists>c. getToken h = Inr c \<and> c \<noteq> t)"
  using getToken_total [of h] by auto

lemma getToken_enabled_update [simp]: "getToken (h\<lparr>enabled := b\<rparr>) = getToken h"
  by (simp add: getToken_def getFragment_def split: option.splits)

lemma getToken_lastFragment_update [simp]: "getToken (h\<lparr>lastFragment := f\<rparr>) = getToken h"
  by (simp add: getToken_def getFragment_def split: option.splits)

lemma getFragment_lastFragment_update [simp]:
  "getFragment (h\<lparr>lastFragment := f\<rparr>) = getFragment h"
  by (simp add: getFragment_def)

lemma getFragment_dispatchEvent [simp]: "getFragment (dispatchEvent ev h) = getFragment h"
  by (simp add: getFragment_def dispatchEvent_def)

lemma getToken_channel0: "getToken channel0 = Inr ''a''"
  by (simp add: channel0_def window0_def getToken_def getFragment_def assertString_def
      indexOf_def substring_def Let_def)

lemma isSupported_channel0: "isSupported window0 (Some (window channel0))"
  by (simp add: isSupported_def channel0_def window0_def)

text \<open>
  C9. In fragment mode \<open>getToken\<close> never fails and never yields null: for an href without
  \<^verbatim>\<open>#\<close> it returns the empty string, and otherwise the part of the href strictly after
  its first \<^verbatim>\<open>#\<close>.
\<close>

theorem getToken_fragment:
  "useFragment h \<Longrightarrow>
   (CHR ''#'' \<notin> set (href (location (window h))) \<longrightarrow> getToken h = Inr []) \<and>
   (href (location (window h)) = pre @ CHR ''#'' # post \<and> CHR ''#'' \<notin> set pre \<longrightarrow>
      getToken h = Inr post) \<and>
   (\<exists>t. getToken h = Inr t \<and> getFragment h = Some t)"
  by (auto simp: getToken_def getFragment_def assertString_def Let_def indexOf_def
      indexOfFrom_absent indexOfFrom_first substring_after_prefix)

theorem getToken_fragment_witness:
  "useFragment channel0 \<and> href (location (window channel0)) = ''http://h/p'' @ CHR ''#'' # ''a'' \<and>
   CHR ''#'' \<notin> set ''http://h/p'' \<and> getToken channel0 = Inr ''a'' \<and>
   CHR ''#'' \<notin> set (href (location (window (channel0\<lparr>window := window0\<lparr>location :=
       \<lparr>href = ''http://h/p'', pathname = ''/p'', search = []\<rparr>\<rparr>\<rparr>)))) \<and>
   getToken (channel0\<lparr>window := window0\<lparr>location :=
       \<lparr>href = ''http://h/p'', pathname = ''/p'', search = []\<rparr>\<rparr>\<rparr>) = Inr []"
  using getToken_fragment [of channel0 "''http://h/p''" "''a''"]
    getToken_fragment [of "channel0\<lparr>window := window0\<lparr>location :=
       \<lparr>href = ''http://h/p'', pathname = ''/p'', search = []\<rparr>\<rparr>\<rparr>" "[]" "[]"]
  by (simp add: channel0_def window0_def)

subsection \<open>Construction\<close>

lemma isSupported_oldWindow: "\<not> isSupported window0 (Some oldWindow)"
  by (simp add: isSupported_def oldWindow_def)

lemma isSupported_window0: "isSupported window0 None"
  by (simp add: isSupported_def window0_def)

lemma new_window0: "Html5History_new window0 None None = Inr channel0"
  by (simp add: Html5History_new_def isSupported_window0 channel0_def)

text \<open>
  C8. Constructing the channel fails with an assertion failure exactly when
  \<open>isSupported\<close> is false for the window, that is when the window has no history
  object or one without \<^verbatim>\<open>pushState\<close>; otherwise it yields a channel on a supported
  window. \<open>isSupported\<close> is a function of the window alone that returns a truth value:
  it reads only the history object and its \<^verbatim>\<open>pushState\<close>, and has no state to change.
\<close>

theorem Html5History_new_supported:
  "(Html5History_new g opt_win tr = Inl AssertionError \<longleftrightarrow> \<not> isSupported g opt_win) \<and>
   (isSupported g opt_win \<longrightarrow>
      (\<exists>h. Html5History_new g opt_win tr = Inr h \<and> isSupported g (Some (window h)))) \<and>
   (isSupported g opt_win \<longleftrightarrow>
      (\<exists>hs. history (case opt_win of Some w \<Rightarrow> w | None \<Rightarrow> g) = Some hs \<and>
            pushStateSupported hs)) \<and>
   (map_option pushStateSupported (history w) = map_option pushStateSupported (history w') \<longrightarrow>
      isSupported g (Some w) = isSupported g (Some w'))"
  by (auto simp: Html5History_new_def isSupported_def Let_def split: option.splits)

theorem Html5History_new_supported_witness:
  "isSupported window0 None \<and> Html5History_new window0 None None = Inr channel0 \<and>
   \<not> isSupported window0 (Some oldWindow) \<and>
   Html5History_new window0 (Some oldWindow) None = Inl AssertionError"
proof -
  have fails: "Html5History_new window0 (Some oldWindow) None = Inl AssertionError"
    using Html5History_new_supported [of window0 "Some oldWindow" None window0 window0]
      isSupported_oldWindow by blast
  show ?thesis
    using fails isSupported_oldWindow isSupported_window0 new_window0 by simp
qed

subsection \<open>Enabling and disabling\<close>

text \<open>
  C6. \<open>setEnabled True\<close> on a disabled channel enables it and dispatches exactly one
  event, with the token that \<open>getToken\<close> returns and the navigation flag false;
  \<open>setEnabled False\<close> on an enabled channel only clears the flag; \<open>setEnabled\<close> with
  the current value changes nothing and dispatches nothing.
\<close>

theorem setEnabled_notifies:
  "(\<not> enabled h \<longrightarrow>
      (\<exists>t. getToken h = Inr t \<and>
           setEnabled True h =
             Inr (h\<lparr>enabled := True,
                    dispatched := dispatched h @ [\<lparr>ev_token = t, isNavigation = False\<rparr>]\<rparr>))) \<and>
   (enabled h \<longrightarrow> setEnabled False h = Inr (h\<lparr>enabled := False\<rparr>)) \<and>
   setEnabled (enabled h) h = Inr h"
  using getToken_total [of h]
  by (auto simp: setEnabled_def Let_def andThen_def dispatchEvent_def)

theorem setEnabled_notifies_witness:
  "\<not> enabled channel0 \<and> getToken channel0 = Inr ''a'' \<and>
   setEnabled True channel0 =
     Inr (channel0\<lparr>enabled := True,
                   dispatched := [\<lparr>ev_token = ''a'', isNavigation = False\<rparr>]\<rparr>) \<and>
   enabled (channel0\<lparr>enabled := True\<rparr>) \<and>
   setEnabled False (channel0\<lparr>enabled := True\<rparr>) = Inr channel0"
  using setEnabled_notifies [of channel0] setEnabled_notifies [of "channel0\<lparr>enabled := True\<rparr>"]
  by (simp add: getToken_channel0) (simp add: channel0_def)

subsection \<open>Signals of the host\<close>

lemma getFragment_channel0_enabled: "getFragment (channel0\<lparr>enabled := True\<rparr>) = Some ''a''"
  by (simp add: channel0_def window0_def getFragment_def indexOf_def substring_def Let_def)

text \<open>
  C7. On an enabled channel a POPSTATE signal always dispatches one navigation event
  and records the fragment; a HASHCHANGE signal does the same when the fragment differs
  from the last one recorded and does nothing otherwise. So a POPSTATE followed at once
  by a HASHCHANGE for the same location ends in the state the POPSTATE alone gives:
  one event, not two.
\<close>

theorem onHistoryEvent_notifications:
  "enabled h \<Longrightarrow>
   (\<exists>t. getToken h = Inr t \<and>
        onHistoryEvent POPSTATE h =
          Inr (h\<lparr>lastFragment := getFragment h,
                 dispatched := dispatched h @ [\<lparr>ev_token = t, isNavigation = True\<rparr>]\<rparr>) \<and>
        (getFragment h \<noteq> lastFragment h \<longrightarrow>
           onHistoryEvent HASHCHANGE h =
             Inr (h\<lparr>lastFragment := getFragment h,
                    dispatched := dispatched h @ [\<lparr>ev_token = t, isNavigation = True\<rparr>]\<rparr>))) \<and>
   (getFragment h = lastFragment h \<longrightarrow> onHistoryEvent HASHCHANGE h = Inr h) \<and>
   andThen (onHistoryEvent POPSTATE h) (onHistoryEvent HASHCHANGE) = onHistoryEvent POPSTATE h"
  using getToken_total [of h]
  by (auto simp: onHistoryEvent_def Let_def andThen_def dispatchEvent_def getFragment_def)

theorem onHistoryEvent_notifications_witness:
  "enabled (channel0\<lparr>enabled := True\<rparr>) \<and>
   onHistoryEvent POPSTATE (channel0\<lparr>enabled := True\<rparr>) =
     Inr (channel0\<lparr>enabled := True, lastFragment := Some ''a'',
                   dispatched := [\<lparr>ev_token = ''a'', isNavigation = True\<rparr>]\<rparr>) \<and>
   andThen (onHistoryEvent POPSTATE (channel0\<lparr>enabled := True\<rparr>)) (onHistoryEvent HASHCHANGE) =
     Inr (channel0\<lparr>enabled := True, lastFragment := Some ''a'',
                   dispatched := [\<lparr>ev_token = ''a'', isNavigation = True\<rparr>]\<rparr>)"
proof -
  have en: "enabled (channel0\<lparr>enabled := True\<rparr>)"
    by simp
  have d: "dispatched channel0 = []"
    by (simp add: channel0_def)
  note run = onHistoryEvent_notifications [OF en]
  from run have pop: "onHistoryEvent POPSTATE (channel0\<lparr>enabled := True\<rparr>) =
     Inr (channel0\<lparr>enabled := True, lastFragment := Some ''a'',
                   dispatched := [\<lparr>ev_token = ''a'', isNavigation = True\<rparr>]\<rparr>)"
    by (simp add: getToken_channel0 getFragment_channel0_enabled d)
  from run have both: "andThen (onHistoryEvent POPSTATE (channel0\<lparr>enabled := True\<rparr>))
      (onHistoryEvent HASHCHANGE) = onHistoryEvent POPSTATE (channel0\<lparr>enabled := True\<rparr>)"
    by blast
  show ?thesis
    using en pop both by simp
qed

text \<open>
  C10. While the channel is disabled, a POPSTATE or HASHCHANGE signal dispatches nothing
  and leaves the whole channel state as it was, the last recorded fragment included;
  enabling the channel afterwards behaves as if the signal had not occurred.
\<close>

theorem onHistoryEvent_disabled:
  "\<not> enabled h \<Longrightarrow>
   onHistoryEvent e h = Inr h \<and>
   andThen (onHistoryEvent e h) (setEnabled True) = setEnabled True h"
  by (simp add: onHistoryEvent_def andThen_def)

theorem onHistoryEvent_disabled_witness:
  "\<not> enabled channel0 \<and> onHistoryEvent POPSTATE channel0 = Inr channel0 \<and>
   onHistoryEvent HASHCHANGE channel0 = Inr channel0 \<and>
   lastFragment channel0 = None \<and> dispatched channel0 = []"
proof -
  have dis: "\<not> enabled channel0"
    by (simp add: channel0_def)
  show ?thesis
    using onHistoryEvent_disabled [OF dis, of POPSTATE] onHistoryEvent_disabled [OF dis, of HASHCHANGE]
    by (simp add: channel0_def)
qed

subsection \<open>Setting and replacing the token\<close>

lemma setToken_b_channel0: "setToken ''b'' None channel0 = Inr channelB"
proof -
  have url: "getUrl channel0 ''b'' = ''#b''"
    by (simp add: getUrl_def channel0_def)
  have title: "firstNonEmpty None (documentTitle (window channel0)) = ''T''"
    by (simp add: firstNonEmpty_def channel0_def window0_def)
  have push: "pushState ''T'' ''#b'' (window channel0) =
      Inr (window0\<lparr>history :=
                    Some \<lparr>pushStateSupported = True, calls = [PushState ''T'' ''#b'']\<rparr>,
                  location := \<lparr>href = ''http://h/p#b'', pathname = ''/p'', search = []\<rparr>\<rparr>)"
    by (simp add: pushState_def channel0_def window0_def fragmentHost_def)
  show ?thesis
    by (simp add: setToken_def andThen_def getToken_channel0 url title push dispatchEvent_def
        channelB_def)
      (simp add: channel0_def)
qed

lemma getToken_channelB: "getToken channelB = Inr ''b''"
  by (simp add: channelB_def channel0_def window0_def getToken_def getFragment_def
      assertString_def indexOf_def substring_def Let_def)

lemma historyCalls_channel0: "historyCalls channel0 = []"
  by (simp add: historyCalls_def channel0_def window0_def)

lemma replace_args_channel0:
  "firstNonEmpty None (documentTitle (window channel0)) = ''T'' \<and>
   getUrl channel0 ''a'' = ''#a''"
  by (simp add: firstNonEmpty_def getUrl_def channel0_def window0_def)

text \<open>
  C5, as the code has it. On a channel whose window is supported: \<open>setToken t\<close> with
  \<open>t\<close> equal to the current token changes nothing (no push, no event). With \<open>t\<close>
  different from the current token it issues exactly one \<^verbatim>\<open>pushState\<close> and dispatches
  one event that is not a navigation; if the host location then reads back \<open>t\<close>, a
  second \<open>setToken t\<close> is a no-op, so the two calls issue exactly one push.
  \<open>replaceToken t\<close> issues a \<^verbatim>\<open>replaceState\<close> and dispatches an event on every call,
  whatever the current token, and leaves the window supported.
\<close>

theorem setToken_replaceToken_calls:
  "isSupported g (Some (window h)) \<Longrightarrow>
   (getToken h = Inr t \<longrightarrow> setToken t ti h = Inr h) \<and>
   (getToken h \<noteq> Inr t \<longrightarrow>
      (case setToken t ti h of
         Inl err \<Rightarrow> False
       | Inr h1 \<Rightarrow>
           historyCalls h1 =
             historyCalls h @
               [PushState (firstNonEmpty ti (documentTitle (window h))) (getUrl h t)] \<and>
           dispatched h1 = dispatched h @ [\<lparr>ev_token = t, isNavigation = False\<rparr>] \<and>
           pushCount h1 = pushCount h + 1 \<and>
           (getToken h1 = Inr t \<longrightarrow>
              andThen (setToken t ti h) (setToken t ti2) = Inr h1))) \<and>
   (case replaceToken t ti h of
      Inl err \<Rightarrow> False
    | Inr h2 \<Rightarrow>
        historyCalls h2 =
          historyCalls h @
            [ReplaceState (firstNonEmpty ti (documentTitle (window h))) (getUrl h t)] \<and>
        dispatched h2 = dispatched h @ [\<lparr>ev_token = t, isNavigation = False\<rparr>] \<and>
        pushCount h2 = pushCount h \<and>
        isSupported g (Some (window h2)))"
proof (intro conjI impI)
  assume sup: "isSupported g (Some (window h))"
  then obtain hs where hs: "history (window h) = Some hs" "pushStateSupported hs"
    by (auto simp: isSupported_def split: option.splits)
  show "setToken t ti h = Inr h" if "getToken h = Inr t"
    using that by (simp add: setToken_def andThen_def)
  show "case setToken t ti h of
         Inl err \<Rightarrow> False
       | Inr h1 \<Rightarrow>
           historyCalls h1 =
             historyCalls h @
               [PushState (firstNonEmpty ti (documentTitle (window h))) (getUrl h t)] \<and>
           dispatched h1 = dispatched h @ [\<lparr>ev_token = t, isNavigation = False\<rparr>] \<and>
           pushCount h1 = pushCount h + 1 \<and>
           (getToken h1 = Inr t \<longrightarrow>
              andThen (setToken t ti h) (setToken t ti2) = Inr h1)"
    if "getToken h \<noteq> Inr t"
  proof -
    from that obtain c where c: "getToken h = Inr c" "c \<noteq> t"
      by (auto simp: getToken_Inr_cases)
    define h1 where "h1 = dispatchEvent \<lparr>ev_token = t, isNavigation = False\<rparr>
      (h\<lparr>window := (window h)\<lparr>history := Some (hs\<lparr>calls := calls hs @
          [PushState (firstNonEmpty ti (documentTitle (window h))) (getUrl h t)]\<rparr>),
        location := resolveUrl (window h) (getUrl h t) (location (window h))\<rparr>\<rparr>)"
    have run: "setToken t ti h = Inr h1"
      using c hs by (simp add: setToken_def andThen_def pushState_def h1_def)
    have calls1: "historyCalls h1 = historyCalls h @
        [PushState (firstNonEmpty ti (documentTitle (window h))) (getUrl h t)]"
      using hs by (simp add: h1_def historyCalls_def dispatchEvent_def)
    have disp1: "dispatched h1 = dispatched h @ [\<lparr>ev_token = t, isNavigation = False\<rparr>]"
      by (simp add: h1_def dispatchEvent_def)
    have again: "andThen (setToken t ti h) (setToken t ti2) = Inr h1" if "getToken h1 = Inr t"
      using that run by (simp add: andThen_def setToken_def)
    show ?thesis
      using run calls1 disp1 again by (simp add: pushCount_def)
  qed
  show "case replaceToken t ti h of
      Inl err \<Rightarrow> False
    | Inr h2 \<Rightarrow>
        historyCalls h2 =
          historyCalls h @
            [ReplaceState (firstNonEmpty ti (documentTitle (window h))) (getUrl h t)] \<and>
        dispatched h2 = dispatched h @ [\<lparr>ev_token = t, isNavigation = False\<rparr>] \<and>
        pushCount h2 = pushCount h \<and>
        isSupported g (Some (window h2))"
    using hs
    by (simp add: replaceToken_def replaceState_def andThen_def dispatchEvent_def
        historyCalls_def pushCount_def isSupported_def)
qed

text \<open>
  The instance: the channel at \<^verbatim>\<open>http://h/p#a\<close> and the token \<^verbatim>\<open>b\<close>, on a host that
  puts the pushed fragment into the href.
\<close>

theorem setToken_replaceToken_calls_witness:
  "isSupported window0 (Some (window channel0)) \<and>
   getToken channel0 = Inr ''a'' \<and> setToken ''a'' None channel0 = Inr channel0 \<and>
   getToken channel0 \<noteq> Inr ''b'' \<and> setToken ''b'' None channel0 = Inr channelB \<and>
   getToken channelB = Inr ''b'' \<and> pushCount channelB = pushCount channel0 + 1 \<and>
   andThen (setToken ''b'' None channel0) (setToken ''b'' None) = Inr channelB \<and>
   (case replaceToken ''a'' None channel0 of
      Inl err \<Rightarrow> False
    | Inr h2 \<Rightarrow> historyCalls h2 = [ReplaceState ''T'' ''#a''])"
proof -
  note inst_b = setToken_replaceToken_calls [OF isSupported_channel0, of "''b''" None None]
  note inst_a = setToken_replaceToken_calls [OF isSupported_channel0, of "''a''" None None]
  from inst_a have same: "setToken ''a'' None channel0 = Inr channel0"
    by (simp add: getToken_channel0)
  from inst_b have push: "pushCount channelB = pushCount channel0 + 1 \<and>
      andThen (setToken ''b'' None channel0) (setToken ''b'' None) = Inr channelB"
    by (simp add: getToken_channel0 setToken_b_channel0 getToken_channelB)
  from inst_a have repl: "case replaceToken ''a'' None channel0 of
      Inl err \<Rightarrow> False
    | Inr h2 \<Rightarrow> historyCalls h2 = [ReplaceState ''T'' ''#a'']"
    by (simp add: historyCalls_channel0 replace_args_channel0 split: sum.splits)
  show ?thesis
    using same push repl
    by (simp add: isSupported_channel0 getToken_channel0 setToken_b_channel0 getToken_channelB)
qed

text \<open>
  The claim as written says that two consecutive \<open>setToken t\<close> calls issue exactly
  one push, for every token. On the channel at \<^verbatim>\<open>http://h/p#a\<close> the token \<^verbatim>\<open>a\<close> is
  already current: both calls return at the equality test and no push is issued.
\<close>

theorem setToken_twice_counterexample:
  "getToken channel0 = Inr ''a'' \<and>
   andThen (setToken ''a'' None channel0) (setToken ''a'' None) = Inr channel0 \<and>
   historyCalls channel0 = [] \<and> pushCount channel0 = 0"
proof -
  have "setToken ''a'' None channel0 = Inr channel0"
    by (simp add: setToken_def andThen_def getToken_channel0)
  then show ?thesis
    by (simp add: andThen_def getToken_channel0 pushCount_def historyCalls_channel0)
qed

end
